theory Spec2Isabelle
  imports Main "HOL-Library.Word" "HOL-Library.Signed_Division"
begin

section \<open>Machine types\<close>

type_synonym bytes = "8 word list"
type_synonym uint32 = "32 word"
type_synonym int64 = "64 word"

text \<open>
  Go's \<open>/\<close> on \<open>int64\<close> truncates towards zero; \<open>sdiv\<close> on \<open>int\<close> does the same, and
  the quotient is read back as a 64-bit word (so \<open>MinInt64 / -1\<close> wraps, as in Go).
\<close>

definition div_int64 :: "int64 \<Rightarrow> int64 \<Rightarrow> int64" where
  "div_int64 a b = word_of_int (sint a sdiv sint b)"

section \<open>Package chainfee: fee rates\<close>

text \<open>
  \<open>SatPerKVByte\<close> and \<open>SatPerKWeight\<close> are both \<open>ltcutil.Amount\<close>, an \<open>int64\<close>.
\<close>

type_synonym SatPerKVByte = int64
type_synonym SatPerKWeight = int64

text \<open>
  Modelled from the spec: \<open>blockchain.WitnessScaleFactor\<close> is a constant of the ltcd
  library, declared outside the source files at hand; its value is 4.
\<close>

definition WitnessScaleFactor :: int64 where
  "WitnessScaleFactor = 4"

definition FeePerKWeight :: "SatPerKVByte \<Rightarrow> SatPerKWeight" where
  "FeePerKWeight s = div_int64 s WitnessScaleFactor"

definition FeePerKVByte :: "SatPerKWeight \<Rightarrow> SatPerKVByte" where
  "FeePerKVByte s = s * WitnessScaleFactor"

section \<open>Package netann: node announcements\<close>

text \<open>
  Modelled from the spec: \<open>lnwire.NodeAnnouncement\<close> is declared outside the source
  files at hand. The record has the fields that the modifiers of package netann assign;
  \<open>Timestamp\<close> is a \<open>uint32\<close>.
\<close>

record NodeAnnouncement =
  Signature :: bytes
  Features :: bytes
  Timestamp :: uint32
  Alias :: bytes
  RGBColor :: "8 word \<times> 8 word \<times> 8 word \<times> 8 word"
  Addresses :: "string list"

text \<open>
  \<open>NodeAnnSetTimestamp\<close> reads the clock; \<open>now\<close> is the \<open>int64\<close> that
  \<open>time.Now().Unix()\<close> returns, and \<open>uint32(...)\<close> keeps its low 32 bits.
\<close>

definition NodeAnnSetTimestamp :: "int64 \<Rightarrow> NodeAnnouncement \<Rightarrow> NodeAnnouncement" where
  "NodeAnnSetTimestamp now nodeAnn =
     (let newTimestamp = (ucast now :: uint32);
          newTimestamp = (if newTimestamp \<le> Timestamp nodeAnn
                          then Timestamp nodeAnn + 1 else newTimestamp)
      in nodeAnn\<lparr>Timestamp := newTimestamp\<rparr>)"

section \<open>Package input: the data model\<close>

text \<open>
  Modelled from the spec: \<open>wire.OutPoint\<close> is declared outside the source files at
  hand. It is the pair of a transaction id and an output index, held by value.
\<close>

record OutPoint =
  Hash :: bytes
  Index :: uint32

text \<open>
  Modelled from the spec: the declaration of \<open>WitnessType\<close> is not among the source
  files at hand. It is a closed set of tags; \<open>HtlcAcceptedRemoteSuccess\<close> is the one
  the source names, the others are the categories the spec lists.
\<close>

datatype WitnessType =
    PlainKey
  | CsvDelayed
  | HtlcOfferedTimeout
  | HtlcAcceptedRemoteSuccess
  | Revocation
  | CommitmentAnchor

text \<open>
  A \<open>*txscript.TxSigHashes\<close> is a reference to a cache that the caller owns: an
  address, or \<open>None\<close> for nil.
\<close>

type_synonym TxSigHashes_ptr = "nat option"

text \<open>
  Modelled from the spec: the declaration of \<open>SignDescriptor\<close> is not among the source
  files at hand. It is a bundle of values: the key reference, the witness script, the
  value of the output, the signature-hash type, and the two late-bound fields that the
  source assigns, \<open>SigHashes\<close> and \<open>InputIndex\<close> (a Go \<open>int\<close>).
\<close>

record SignDescriptor =
  KeyDesc :: bytes
  WitnessScript :: bytes
  OutputValue :: int64
  HashType :: uint32
  SigHashes :: TxSigHashes_ptr
  InputIndex :: int

text \<open>
  Modelled from the spec: the declaration of \<open>Script\<close> is not among the source files
  at hand. It holds the witness stack and the legacy signature script.
\<close>

record Script =
  Witness :: "bytes list"
  SigScript :: bytes

text \<open>A Go \<open>error\<close> value that is not nil; nil is \<open>None\<close> of \<open>error option\<close>.\<close>

datatype error = Error string

text \<open>
  The struct \<open>inputKit\<close>. Every field is a value: the outpoint and the descriptor are
  stored in the struct itself, not behind a pointer.
\<close>

record inputKit =
  outpoint :: OutPoint
  witnessType :: WitnessType
  signDesc :: SignDescriptor
  heightHint :: uint32
  blockToMaturity :: uint32

text \<open>
  A \<open>[]byte\<close> is a slice header: nil (\<open>None\<close>), or a reference to a backing array, here
  the address of the array. Assigning or passing a slice copies the header, not the array.
\<close>

type_synonym byte_slice = "nat option"

text \<open>
  \<open>BaseInput\<close> embeds \<open>inputKit\<close> and adds nothing; \<open>HtlcSucceedInput\<close> embeds it and
  adds the preimage, a \<open>[]byte\<close>: the struct holds the slice header it was given, and the
  bytes stay in the array of whoever made the slice.
\<close>

type_synonym BaseInput = inputKit

record HtlcSucceedInput = inputKit +
  preimage :: byte_slice

text \<open>
  The accessors of \<open>inputKit\<close>, promoted to both variants by the embedding.
  \<open>OutPoint\<close> and \<open>SignDesc\<close> return a pointer to the field of the struct; the model
  returns what is read through it.
\<close>

definition OutPoint :: "'a inputKit_scheme \<Rightarrow> OutPoint" where
  "OutPoint i = outpoint i"

definition WitnessType :: "'a inputKit_scheme \<Rightarrow> WitnessType" where
  "WitnessType i = witnessType i"

definition SignDesc :: "'a inputKit_scheme \<Rightarrow> SignDescriptor" where
  "SignDesc i = signDesc i"

definition HeightHint :: "'a inputKit_scheme \<Rightarrow> uint32" where
  "HeightHint i = heightHint i"

definition BlocksToMaturity :: "'a inputKit_scheme \<Rightarrow> uint32" where
  "BlocksToMaturity i = blockToMaturity i"

section \<open>Package input: the constructors\<close>

text \<open>
  The constructors take \<open>*wire.OutPoint\<close> and \<open>*SignDescriptor\<close>: addresses in the
  caller's memory, which the caller may write to at any later time. \<open>caller_mem\<close> is a
  state of that memory: the outpoints and the descriptors behind the caller's pointers
  (an address outside the domain is nil, and dereferencing it panics: \<open>None\<close>), and the
  backing arrays of the caller's byte slices. \<open>slice_bytes\<close> reads a slice in a state of
  the memory; a nil slice has no bytes.
\<close>

record caller_mem =
  outpoints :: "nat \<rightharpoonup> OutPoint"
  descriptors :: "nat \<rightharpoonup> SignDescriptor"
  byte_arrays :: "nat \<Rightarrow> bytes"

definition slice_bytes :: "caller_mem \<Rightarrow> byte_slice \<Rightarrow> bytes" where
  "slice_bytes mem s = (case s of None \<Rightarrow> [] | Some a \<Rightarrow> byte_arrays mem a)"

text \<open>
  The writes the caller can make after a constructor has returned: to the outpoint and the
  descriptor it passed in, and to the array behind a slice.
\<close>

definition write_outpoint :: "nat \<Rightarrow> OutPoint \<Rightarrow> caller_mem \<Rightarrow> caller_mem" where
  "write_outpoint p v mem = mem\<lparr>outpoints := (outpoints mem)(p \<mapsto> v)\<rparr>"

definition write_descriptor :: "nat \<Rightarrow> SignDescriptor \<Rightarrow> caller_mem \<Rightarrow> caller_mem" where
  "write_descriptor q v mem = mem\<lparr>descriptors := (descriptors mem)(q \<mapsto> v)\<rparr>"

definition write_bytes :: "nat \<Rightarrow> bytes \<Rightarrow> caller_mem \<Rightarrow> caller_mem" where
  "write_bytes a bs mem = mem\<lparr>byte_arrays := (byte_arrays mem)(a := bs)\<rparr>"

definition MakeBaseInput ::
  "caller_mem \<Rightarrow> nat \<Rightarrow> WitnessType \<Rightarrow> nat \<Rightarrow> uint32 \<Rightarrow> BaseInput option" where
  "MakeBaseInput mem outpoint_p witnessType_a signDescriptor_p heightHint_a =
     (case outpoints mem outpoint_p of
        None \<Rightarrow> None
      | Some op \<Rightarrow>
          (case descriptors mem signDescriptor_p of
             None \<Rightarrow> None
           | Some sd \<Rightarrow>
               Some \<lparr>outpoint = op, witnessType = witnessType_a, signDesc = sd,
                     heightHint = heightHint_a, blockToMaturity = 0\<rparr>))"

definition NewBaseInput ::
  "caller_mem \<Rightarrow> nat \<Rightarrow> WitnessType \<Rightarrow> nat \<Rightarrow> uint32 \<Rightarrow> BaseInput option" where
  "NewBaseInput mem outpoint_p witnessType_a signDescriptor_p heightHint_a =
     MakeBaseInput mem outpoint_p witnessType_a signDescriptor_p heightHint_a"

definition NewCsvInput ::
  "caller_mem \<Rightarrow> nat \<Rightarrow> WitnessType \<Rightarrow> nat \<Rightarrow> uint32 \<Rightarrow> uint32 \<Rightarrow> BaseInput option" where
  "NewCsvInput mem outpoint_p witnessType_a signDescriptor_p heightHint_a blockToMaturity_a =
     (case outpoints mem outpoint_p of
        None \<Rightarrow> None
      | Some op \<Rightarrow>
          (case descriptors mem signDescriptor_p of
             None \<Rightarrow> None
           | Some sd \<Rightarrow>
               Some \<lparr>outpoint = op, witnessType = witnessType_a, signDesc = sd,
                     heightHint = heightHint_a, blockToMaturity = blockToMaturity_a\<rparr>))"

definition MakeHtlcSucceedInput ::
  "caller_mem \<Rightarrow> nat \<Rightarrow> nat \<Rightarrow> byte_slice \<Rightarrow> uint32 \<Rightarrow> uint32 \<Rightarrow> HtlcSucceedInput option" where
  "MakeHtlcSucceedInput mem outpoint_p signDescriptor_p preimage_a heightHint_a blocksToMaturity_a =
     (case outpoints mem outpoint_p of
        None \<Rightarrow> None
      | Some op \<Rightarrow>
          (case descriptors mem signDescriptor_p of
             None \<Rightarrow> None
           | Some sd \<Rightarrow>
               Some \<lparr>outpoint = op, witnessType = HtlcAcceptedRemoteSuccess, signDesc = sd,
                     heightHint = heightHint_a, blockToMaturity = blocksToMaturity_a,
                     preimage = preimage_a\<rparr>))"

section \<open>Package input: crafting the input script\<close>

text \<open>
  \<open>BaseInput.CraftInputScript\<close> asks the witness type of the input for its generator,
  handing it the signer and a pointer to the descriptor stored in the input, and calls the
  closure it gets with the transaction, the cache and the index. The method
  \<open>WitnessGenerator\<close> is not among the source files at hand, so it is the parameter
  \<open>gen\<close>. The closure holds a pointer to the input's descriptor and receives a pointer
  to the transaction: what it leaves in both is part of what it returns, next to the Go
  pair \<open>(*Script, error)\<close>.
\<close>

type_synonym ('s, 'tx) witness_gen =
  "WitnessType \<Rightarrow> 's \<Rightarrow> SignDescriptor \<Rightarrow> 'tx \<Rightarrow> TxSigHashes_ptr \<Rightarrow> int
     \<Rightarrow> SignDescriptor \<times> 'tx \<times> Script option \<times> error option"

definition BaseInput_CraftInputScript ::
  "('s, 'tx) witness_gen \<Rightarrow> 's \<Rightarrow> BaseInput \<Rightarrow> 'tx \<Rightarrow> TxSigHashes_ptr \<Rightarrow> int
     \<Rightarrow> BaseInput \<times> 'tx \<times> Script option \<times> error option" where
  "BaseInput_CraftInputScript gen signer bi txn hashCache txinIdx =
     (case gen (witnessType bi) signer (SignDesc bi) txn hashCache txinIdx of
        (desc', txn', script, err) \<Rightarrow> (bi\<lparr>signDesc := desc'\<rparr>, txn', script, err))"

text \<open>
  \<open>HtlcSucceedInput.CraftInputScript\<close> copies the stored descriptor into a local
  variable, assigns the two late-bound fields of the copy, and calls
  \<open>SenderHtlcSpendRedeem\<close> with a pointer to the copy, the transaction and the stored
  preimage slice. \<open>SenderHtlcSpendRedeem\<close> is not among the source files at hand, so it
  is the parameter \<open>redeem\<close>, returning what it leaves in the local descriptor and in the
  transaction next to the Go pair \<open>(wire.TxWitness, error)\<close>. The local descriptor is
  dead after the call; the input itself is not written to. The bytes of the preimage are
  whatever the array behind the slice holds when \<open>redeem\<close> runs.
\<close>

type_synonym ('s, 'tx) htlc_redeem =
  "'s \<Rightarrow> SignDescriptor \<Rightarrow> 'tx \<Rightarrow> byte_slice
     \<Rightarrow> SignDescriptor \<times> 'tx \<times> bytes list \<times> error option"

definition HtlcSucceedInput_CraftInputScript ::
  "('s, 'tx) htlc_redeem \<Rightarrow> 's \<Rightarrow> HtlcSucceedInput \<Rightarrow> 'tx \<Rightarrow> TxSigHashes_ptr \<Rightarrow> int
     \<Rightarrow> HtlcSucceedInput \<times> 'tx \<times> Script option \<times> error option" where
  "HtlcSucceedInput_CraftInputScript redeem signer h txn hashCache txinIdx =
     (let desc = signDesc h;
          desc = desc\<lparr>SigHashes := hashCache\<rparr>;
          desc = desc\<lparr>InputIndex := txinIdx\<rparr>
      in case redeem signer desc txn (preimage h) of
           (desc', txn', witness, err) \<Rightarrow>
             (case err of
                Some e \<Rightarrow> (h, txn', None, Some e)
              | None \<Rightarrow> (h, txn', Some \<lparr>Witness = witness, SigScript = []\<rparr>, None)))"

section \<open>The collaborators, from the spec\<close>

text \<open>
  Modelled from the spec: the \<open>Signer\<close> interface is not among the source files at
  hand. The spec gives it as \<open>Sign(descriptor, txn, idx)\<close>, which returns signature
  bytes or fails with a signing error; the model takes it as a function of these
  arguments, that is, a deterministic signer.
\<close>

type_synonym 'tx Signer = "SignDescriptor \<Rightarrow> 'tx \<Rightarrow> int \<Rightarrow> error + bytes"

text \<open>
  Modelled from the spec: the strategy bound to a witness type is not among the source
  files at hand. The spec gives it as a pure function from the transaction context and
  the sign descriptor to a script or a signing failure; the table of strategies is total
  over the witness types.
\<close>

type_synonym ('s, 'tx) strategy = "'s \<Rightarrow> SignDescriptor \<Rightarrow> 'tx \<Rightarrow> error + Script"

text \<open>
  Modelled from the spec: the method \<open>WitnessGenerator\<close> of \<open>WitnessType\<close> is not
  among the source files at hand. By the spec, the function it returns takes the
  transaction, the sighash cache and the input index, sets the two late-bound fields of
  the descriptor it was given immediately before use, runs the strategy of the witness
  type, and returns the script or the failure unchanged; it has no effect beyond invoking
  the signer.
\<close>

definition WitnessGenerator ::
  "(WitnessType \<Rightarrow> ('s, 'tx) strategy) \<Rightarrow> ('s, 'tx) witness_gen" where
  "WitnessGenerator strategies wt signer descriptor tx hc inputIndex =
     (let desc = descriptor\<lparr>SigHashes := hc, InputIndex := inputIndex\<rparr>
      in case strategies wt signer desc tx of
           Inl e \<Rightarrow> (desc, tx, None, Some e)
         | Inr script \<Rightarrow> (desc, tx, Some script, None))"

text \<open>
  Modelled from the spec: \<open>SenderHtlcSpendRedeem\<close> is not among the source files at
  hand. By the spec it has the signer sign the descriptor against the transaction and the
  input index, lets a signer failure through unchanged, and otherwise returns a witness
  stack that holds the signature and, verbatim, the preimage, followed by the witness
  script; it checks the preimage against nothing. \<open>mem\<close> is the state of the memory
  in which it runs, where it reads the bytes of the preimage slice.
\<close>

definition SenderHtlcSpendRedeem :: "caller_mem \<Rightarrow> ('tx Signer, 'tx) htlc_redeem" where
  "SenderHtlcSpendRedeem mem signer signDesc_a sweepTx paymentPreimage =
     (case signer signDesc_a sweepTx (InputIndex signDesc_a) of
        Inl e \<Rightarrow> (signDesc_a, sweepTx, [], Some e)
      | Inr sweepSig \<Rightarrow>
          (signDesc_a, sweepTx,
           [sweepSig, slice_bytes mem paymentPreimage, WitnessScript signDesc_a], None))"

section \<open>Scenarios\<close>

text \<open>
  The values of the scenarios: an outpoint with transaction id \<open>00..01\<close> and index 0, a
  descriptor, the caller's memory holding both and the preimage \<open>0x1234\<close> (and a second
  state of that memory, after the caller has overwritten the outpoint and the
  descriptor), a plain and a CSV-locked input with height hint 100, an HTLC input whose
  preimage is the caller's slice, a signer that returns a fixed 64-byte signature
  and one that has no key, and a table of strategies that puts the signature and the key
  on the witness stack.
\<close>

definition ex_outpoint :: OutPoint where
  "ex_outpoint = \<lparr>Hash = replicate 31 0 @ [1], Index = 0\<rparr>"

definition ex_desc :: SignDescriptor where
  "ex_desc = \<lparr>KeyDesc = [2, 3], WitnessScript = [0x51], OutputValue = 10000,
              HashType = 1, SigHashes = None, InputIndex = 0\<rparr>"

definition ex_mem :: caller_mem where
  "ex_mem = \<lparr>outpoints = [1 \<mapsto> ex_outpoint], descriptors = [2 \<mapsto> ex_desc],
             byte_arrays = (\<lambda>a. [])(3 := [0x12, 0x34])\<rparr>"

definition ex_mem' :: caller_mem where
  "ex_mem' = write_descriptor 2 (ex_desc\<lparr>OutputValue := 1\<rparr>)
               (write_outpoint 1 (ex_outpoint\<lparr>Index := 7\<rparr>) ex_mem)"

definition ex_base :: BaseInput where
  "ex_base = \<lparr>outpoint = ex_outpoint, witnessType = PlainKey, signDesc = ex_desc,
              heightHint = 100, blockToMaturity = 0\<rparr>"

definition ex_csv :: BaseInput where
  "ex_csv = \<lparr>outpoint = ex_outpoint, witnessType = CsvDelayed, signDesc = ex_desc,
             heightHint = 100, blockToMaturity = 144\<rparr>"

definition ex_csv' :: BaseInput where
  "ex_csv' = ex_csv\<lparr>outpoint := ex_outpoint\<lparr>Index := 7\<rparr>,
                    signDesc := ex_desc\<lparr>OutputValue := 1\<rparr>\<rparr>"

definition ex_htlc :: HtlcSucceedInput where
  "ex_htlc = \<lparr>outpoint = ex_outpoint, witnessType = HtlcAcceptedRemoteSuccess,
              signDesc = ex_desc, heightHint = 100, blockToMaturity = 0,
              preimage = Some 3\<rparr>"

definition ex_htlc' :: HtlcSucceedInput where
  "ex_htlc' = ex_htlc\<lparr>outpoint := ex_outpoint\<lparr>Index := 7\<rparr>,
                      signDesc := ex_desc\<lparr>OutputValue := 1\<rparr>\<rparr>"

definition stub_signer :: "bytes Signer" where
  "stub_signer d tx i = Inr (replicate 64 0xAB)"

definition failing_signer :: "bytes Signer" where
  "failing_signer d tx i = Inl (Error ''key unavailable'')"

definition ex_strategies :: "WitnessType \<Rightarrow> (bytes Signer, bytes) strategy" where
  "ex_strategies wt signer d tx =
     (case signer d tx (InputIndex d) of
        Inl e \<Rightarrow> Inl e
      | Inr s \<Rightarrow> Inr \<lparr>Witness = [s, KeyDesc d], SigScript = []\<rparr>)"

definition ex_ann :: NodeAnnouncement where
  "ex_ann = \<lparr>Signature = [], Features = [], Timestamp = 1000, Alias = [],
             RGBColor = (0, 0, 0, 0), Addresses = []\<rparr>"

section \<open>Fee rates\<close>

lemma sint_mul4:
  fixes s :: int64
  assumes "- (2 ^ 63) \<le> sint s * 4" and "sint s * 4 < 2 ^ 63"
  shows "sint (s * 4) = sint s * 4"
proof -
  have "sint (s * 4) = signed_take_bit 63 (sint s * sint (4 :: int64))"
    by (simp add: sint_word_ariths)
  also have "\<dots> = signed_take_bit 63 (sint s * 4)"
    by simp
  also have "\<dots> = sint s * 4"
    using assms by (simp add: signed_take_bit_int_eq_self)
  finally show ?thesis .
qed

lemma sdiv4_mul4: "((k::int) * 4) sdiv 4 = k"
  by (simp add: signed_divide_int_def sgn_mult abs_mult sgn_if)

lemma kw_kb_kw:
  fixes s :: SatPerKWeight
  assumes "- (2 ^ 63) \<le> sint s * 4" and "sint s * 4 < 2 ^ 63"
  shows "FeePerKWeight (FeePerKVByte s) = s"
  using sint_mul4 [OF assms]
  by (simp add: FeePerKWeight_def FeePerKVByte_def WitnessScaleFactor_def div_int64_def
      sdiv4_mul4)

lemma sdiv4_bounds:
  fixes k :: int
  assumes "- (2 ^ 63) \<le> k" and "k < 2 ^ 63"
  shows "- (2 ^ 63) \<le> (k sdiv 4) * 4" and "(k sdiv 4) * 4 < 2 ^ 63"
  using assms by (auto simp: signed_divide_int_def sgn_if)

lemma sint_sdiv4_mul4:
  fixes k :: int64
  shows "sint ((word_of_int (sint k sdiv 4) :: int64) * 4) = (sint k sdiv 4) * 4"
proof -
  have b: "- (2 ^ 63) \<le> sint k" "sint k < 2 ^ 63"
    using sint_ge [of k] sint_lt [of k] by simp_all
  have "(word_of_int (sint k sdiv 4) :: int64) * 4 = word_of_int ((sint k sdiv 4) * 4)"
    by simp
  then have "sint ((word_of_int (sint k sdiv 4) :: int64) * 4)
      = signed_take_bit 63 ((sint k sdiv 4) * 4)"
    by (simp only: sint_sbintrunc') simp
  also have "\<dots> = (sint k sdiv 4) * 4"
    using sdiv4_bounds [OF b] by (simp add: signed_take_bit_int_eq_self)
  finally show ?thesis .
qed

lemma kb_kw_kb:
  fixes k :: SatPerKVByte
  assumes "\<not> 4 dvd sint k"
  shows "FeePerKVByte (FeePerKWeight k) \<noteq> k"
proof
  assume "FeePerKVByte (FeePerKWeight k) = k"
  then have "sint ((word_of_int (sint k sdiv 4) :: int64) * 4) = sint k"
    by (simp add: FeePerKWeight_def FeePerKVByte_def WitnessScaleFactor_def div_int64_def)
  then have "sint k = (sint k sdiv 4) * 4"
    by (simp only: sint_sdiv4_mul4)
  then have "4 dvd sint k"
    by (metis dvd_triv_right)
  with assms show False by simp
qed

text \<open>
  C8: a rate in sat/kw whose product with the witness scale factor 4 fits the signed 64-bit
  amount comes back unchanged from \<open>FeePerKVByte\<close> followed by \<open>FeePerKWeight\<close>; a rate
  in sat/kb that is not a multiple of 4 does not come back from \<open>FeePerKWeight\<close> followed
  by \<open>FeePerKVByte\<close>, since the division truncates.
\<close>

theorem fee_rate_roundtrip:
  "(- (2 ^ 63) \<le> sint s * 4 \<and> sint s * 4 < 2 ^ 63 \<longrightarrow> FeePerKWeight (FeePerKVByte s) = s)
   \<and> (\<not> 4 dvd sint k \<longrightarrow> FeePerKVByte (FeePerKWeight k) \<noteq> k)"
  using kw_kb_kw [of s] kb_kw_kb [of k] by blast

theorem fee_rate_roundtrip_witness:
  "(- (2 ^ 63) \<le> sint (253 :: int64) * 4 \<and> sint (253 :: int64) * 4 < 2 ^ 63)
   \<and> FeePerKWeight (FeePerKVByte 253) = 253
   \<and> \<not> 4 dvd sint (1001 :: int64)
   \<and> FeePerKVByte (FeePerKWeight 1001) \<noteq> 1001"
  using fee_rate_roundtrip [of 253 1001] by simp

section \<open>The announcement timestamp\<close>

lemma ucast_small:
  fixes now :: int64
  assumes "0 \<le> sint now" and "sint now < 2 ^ 32"
  shows "uint (ucast now :: uint32) = sint now"
proof -
  have "uint now = take_bit 64 (sint now)"
    by (simp add: uint_sint)
  also have "\<dots> = sint now"
    using assms by (simp add: take_bit_int_eq_self)
  finally have u: "uint now = sint now" .
  have "uint (ucast now :: uint32) = take_bit 32 (uint now)"
    by (simp add: unsigned_ucast_eq)
  also have "\<dots> = sint now"
    using assms u by (simp add: take_bit_int_eq_self)
  finally show ?thesis .
qed

lemma uint_succ:
  fixes t :: uint32
  assumes "uint t < 2 ^ 32 - 1"
  shows "uint (t + 1) = uint t + 1"
proof -
  have "uint (t + 1) = take_bit 32 (uint t + 1)"
    by (simp add: uint_word_ariths take_bit_eq_mod)
  also have "\<dots> = uint t + 1"
    using assms by (simp add: take_bit_int_eq_self)
  finally show ?thesis .
qed

lemma ts_strict:
  fixes t n :: uint32
  assumes "uint t < 2 ^ 32 - 1"
  shows "t < (if n \<le> t then t + 1 else n)"
  using uint_succ [OF assms] by (simp add: word_less_def word_le_def)

lemma ts_max:
  fixes t n :: uint32
  assumes "uint t = 2 ^ 32 - 1"
  shows "n \<le> t" and "t + 1 = 0"
proof -
  have "uint (- 1 :: uint32) = 2 ^ 32 - 1"
    by (simp add: unsigned_minus_1_eq_mask mask_eq_exp_minus_1)
  then have "uint t = uint (- 1 :: uint32)"
    using assms by simp
  then have "t = - 1"
    by (simp only: word_uint_eq_iff)
  then show "n \<le> t" and "t + 1 = 0" by simp_all
qed

text \<open>
  C9, as amended: when the prior timestamp \<open>t\<close> is below \<open>2^32 - 1\<close>, the timestamp after
  \<open>NodeAnnSetTimestamp\<close> is strictly greater than \<open>t\<close> whatever the clock reads: it is the
  low 32 bits of the clock's reading, \<open>uint32(time.Now().Unix())\<close>, when that is greater
  than \<open>t\<close>, and \<open>t + 1\<close> otherwise; only for a clock between 0 and \<open>2^32\<close> is that
  \<open>uint32\<close> the Unix time itself. When \<open>t\<close> is \<open>2^32 - 1\<close> the increment wraps to 0 and
  the timestamp does not increase.
\<close>

theorem NodeAnnSetTimestamp_increases:
  "(uint (Timestamp a) < 2 ^ 32 - 1 \<longrightarrow>
      Timestamp a < Timestamp (NodeAnnSetTimestamp now a)
      \<and> Timestamp (NodeAnnSetTimestamp now a)
          = (if Timestamp a < ucast now then ucast now else Timestamp a + 1)
      \<and> (0 \<le> sint now \<and> sint now < 2 ^ 32 \<longrightarrow>
           uint (Timestamp (NodeAnnSetTimestamp now a))
             = (if uint (Timestamp a) < sint now then sint now else uint (Timestamp a) + 1)))
   \<and> (uint (Timestamp a) = 2 ^ 32 - 1 \<longrightarrow>
      Timestamp (NodeAnnSetTimestamp now a) = 0
      \<and> \<not> Timestamp a < Timestamp (NodeAnnSetTimestamp now a))"
proof (intro conjI impI)
  assume lt: "uint (Timestamp a) < 2 ^ 32 - 1"
  show "Timestamp a < Timestamp (NodeAnnSetTimestamp now a)"
    using ts_strict [OF lt, of "ucast now"] by (simp add: NodeAnnSetTimestamp_def Let_def)
  show eq: "Timestamp (NodeAnnSetTimestamp now a)
          = (if Timestamp a < ucast now then ucast now else Timestamp a + 1)"
    by (auto simp add: NodeAnnSetTimestamp_def Let_def not_less)
  assume r: "0 \<le> sint now \<and> sint now < 2 ^ 32"
  then have u: "uint (ucast now :: uint32) = sint now"
    by (simp add: ucast_small)
  show "uint (Timestamp (NodeAnnSetTimestamp now a))
             = (if uint (Timestamp a) < sint now then sint now else uint (Timestamp a) + 1)"
    using u uint_succ [OF lt] by (simp add: eq word_less_def)
next
  assume mx: "uint (Timestamp a) = 2 ^ 32 - 1"
  show z: "Timestamp (NodeAnnSetTimestamp now a) = 0"
    using ts_max(1) [OF mx, of "ucast now"] ts_max(2) [OF mx]
    by (simp add: NodeAnnSetTimestamp_def Let_def)
  show "\<not> Timestamp a < Timestamp (NodeAnnSetTimestamp now a)"
    by (simp add: z)
qed

theorem NodeAnnSetTimestamp_increases_witness:
  "uint (Timestamp ex_ann) < 2 ^ 32 - 1
   \<and> (0 \<le> sint (2000 :: int64) \<and> sint (2000 :: int64) < 2 ^ 32)
   \<and> Timestamp (NodeAnnSetTimestamp 2000 ex_ann) = 2000
   \<and> Timestamp (NodeAnnSetTimestamp 500 ex_ann) = 1001
   \<and> uint (Timestamp (ex_ann\<lparr>Timestamp := 0xFFFFFFFF\<rparr>)) = 2 ^ 32 - 1
   \<and> Timestamp (NodeAnnSetTimestamp 2000 (ex_ann\<lparr>Timestamp := 0xFFFFFFFF\<rparr>)) = 0"
  using NodeAnnSetTimestamp_increases [of ex_ann 2000]
    NodeAnnSetTimestamp_increases [of ex_ann 500]
    NodeAnnSetTimestamp_increases [of "ex_ann\<lparr>Timestamp := 0xFFFFFFFF\<rparr>" 2000]
  by (simp add: ex_ann_def)

lemma ucast_minus_one: "(ucast (- 1 :: int64) :: uint32) = 4294967295"
  by (simp add: word_eq_iff_unsigned [where ?'a = int] unsigned_ucast_eq
      unsigned_minus_1_eq_mask take_bit_eq_mask mask_eq_exp_minus_1)

text \<open>
  C9 as first stated has the timestamp become the current Unix time whenever that is
  greater than \<open>t\<close>, and \<open>t + 1\<close> otherwise, for every clock. With \<open>t = 1000\<close>: at the
  clock \<open>2^32 + 500\<close> the Unix time is greater than \<open>t\<close>, and the timestamp becomes 1001;
  at the clock \<open>-1\<close> the Unix time is not greater than \<open>t\<close>, and the timestamp becomes
  \<open>2^32 - 1\<close>, not \<open>t + 1\<close>.
\<close>

theorem NodeAnnSetTimestamp_unix_time_counterexample:
  "uint (Timestamp ex_ann) = 1000
   \<and> uint (Timestamp ex_ann) < sint (4294967796 :: int64)
   \<and> uint (Timestamp (NodeAnnSetTimestamp 4294967796 ex_ann)) \<noteq> sint (4294967796 :: int64)
   \<and> uint (Timestamp (NodeAnnSetTimestamp 4294967796 ex_ann)) = 1001
   \<and> \<not> uint (Timestamp ex_ann) < sint (- 1 :: int64)
   \<and> uint (Timestamp (NodeAnnSetTimestamp (- 1) ex_ann)) \<noteq> uint (Timestamp ex_ann) + 1
   \<and> uint (Timestamp (NodeAnnSetTimestamp (- 1) ex_ann)) = 4294967295"
  by (simp add: NodeAnnSetTimestamp_def Let_def ex_ann_def ucast_minus_one)

section \<open>The constructors\<close>

text \<open>
  C4: whatever outpoint, descriptor, preimage, height hint and blocks-to-maturity it is
  given, \<open>MakeHtlcSucceedInput\<close> returns an input whose \<open>WitnessType()\<close> is
  \<open>HtlcAcceptedRemoteSuccess\<close>; it has no parameter for the witness type.
\<close>

theorem MakeHtlcSucceedInput_WitnessType:
  assumes "outpoints mem p = Some op" and "descriptors mem q = Some sd"
  shows "\<exists>h. MakeHtlcSucceedInput mem p q pre hh btm = Some h
             \<and> WitnessType h = HtlcAcceptedRemoteSuccess"
  using assms by (simp add: MakeHtlcSucceedInput_def WitnessType_def)

theorem MakeHtlcSucceedInput_WitnessType_witness:
  "outpoints ex_mem 1 = Some ex_outpoint \<and> descriptors ex_mem 2 = Some ex_desc
   \<and> (\<exists>h. MakeHtlcSucceedInput ex_mem 1 2 (Some 3) 100 0 = Some h
          \<and> WitnessType h = HtlcAcceptedRemoteSuccess)"
proof -
  have a: "outpoints ex_mem 1 = Some ex_outpoint" by (simp add: ex_mem_def)
  have b: "descriptors ex_mem 2 = Some ex_desc" by (simp add: ex_mem_def)
  show ?thesis
    using a b MakeHtlcSucceedInput_WitnessType [OF a b, of "Some 3" 100 0] by simp
qed

text \<open>
  What the caller's later writes reach, with \<open>SenderHtlcSpendRedeem\<close> of the spec: writes
  to the outpoint and to the descriptor that the caller passed to the constructor leave
  the result of \<open>HtlcSucceedInput.CraftInputScript\<close> as it was; a write to the array
  behind the preimage slice does reach it, since the input holds the slice and not a copy
  of the bytes.
\<close>

lemma slice_bytes_after_writes:
  "slice_bytes (write_descriptor q sd' (write_outpoint p op' mem)) s = slice_bytes mem s"
  by (simp add: slice_bytes_def write_descriptor_def write_outpoint_def split: option.split)

lemma redeem_after_writes:
  "SenderHtlcSpendRedeem (write_descriptor q sd' (write_outpoint p op' mem))
     = SenderHtlcSpendRedeem mem"
  by (intro ext) (simp add: SenderHtlcSpendRedeem_def slice_bytes_after_writes split: sum.split)

lemma craft_after_outpoint_descriptor_writes:
  "HtlcSucceedInput_CraftInputScript
     (SenderHtlcSpendRedeem (write_descriptor q sd' (write_outpoint p op' mem)))
     sign h txn hashCache txinIdx
   = HtlcSucceedInput_CraftInputScript (SenderHtlcSpendRedeem mem) sign h txn hashCache txinIdx"
  by (simp only: redeem_after_writes)

lemma preimage_shared_with_caller:
  "MakeHtlcSucceedInput ex_mem 1 2 (Some 3) 100 0 = Some ex_htlc
   \<and> HtlcSucceedInput_CraftInputScript (SenderHtlcSpendRedeem ex_mem) stub_signer ex_htlc []
       (Some 7) 3
     = (ex_htlc, [],
        Some \<lparr>Witness = [replicate 64 0xAB, [0x12, 0x34], [0x51]], SigScript = []\<rparr>, None)
   \<and> HtlcSucceedInput_CraftInputScript
       (SenderHtlcSpendRedeem (write_bytes 3 [0xFF, 0x34] ex_mem)) stub_signer ex_htlc []
       (Some 7) 3
     = (ex_htlc, [],
        Some \<lparr>Witness = [replicate 64 0xAB, [0xFF, 0x34], [0x51]], SigScript = []\<rparr>, None)"
  by (simp add: MakeHtlcSucceedInput_def HtlcSucceedInput_CraftInputScript_def
      SenderHtlcSpendRedeem_def write_bytes_def slice_bytes_def Let_def
      ex_mem_def ex_htlc_def ex_desc_def stub_signer_def)

text \<open>
  C5: each of the four constructors reads the outpoint and the descriptor behind the
  caller's pointers once, when it runs in the memory \<open>mem\<close>, and stores the two values in
  the input. What \<open>OutPoint()\<close> and \<open>SignDesc()\<close> return are the values \<open>mem\<close> held. In
  any later state \<open>mem'\<close> of the caller's memory, whatever the caller has written there,
  \<open>CraftInputScript\<close> hands the descriptor that \<open>mem\<close> held to the generator or to
  \<open>SenderHtlcSpendRedeem\<close> running in \<open>mem'\<close> (the latter with the two late-bound fields
  set, and with the preimage slice that the constructor was given).
\<close>

theorem constructors_copy_by_value:
  assumes "outpoints mem p = Some op" and "descriptors mem q = Some sd"
  shows "(\<exists>bi. MakeBaseInput mem p wt q hh = Some bi
            \<and> OutPoint bi = op \<and> SignDesc bi = sd
            \<and> BaseInput_CraftInputScript (gen mem') signer bi txn hashCache txinIdx
                = (case gen mem' wt signer sd txn hashCache txinIdx of
                     (desc', txn', out) \<Rightarrow> (bi\<lparr>signDesc := desc'\<rparr>, txn', out)))
       \<and> (\<exists>bi. NewBaseInput mem p wt q hh = Some bi
            \<and> OutPoint bi = op \<and> SignDesc bi = sd
            \<and> BaseInput_CraftInputScript (gen mem') signer bi txn hashCache txinIdx
                = (case gen mem' wt signer sd txn hashCache txinIdx of
                     (desc', txn', out) \<Rightarrow> (bi\<lparr>signDesc := desc'\<rparr>, txn', out)))
       \<and> (\<exists>bi. NewCsvInput mem p wt q hh btm = Some bi
            \<and> OutPoint bi = op \<and> SignDesc bi = sd
            \<and> BaseInput_CraftInputScript (gen mem') signer bi txn hashCache txinIdx
                = (case gen mem' wt signer sd txn hashCache txinIdx of
                     (desc', txn', out) \<Rightarrow> (bi\<lparr>signDesc := desc'\<rparr>, txn', out)))
       \<and> (\<exists>h. MakeHtlcSucceedInput mem p q pre hh btm = Some h
            \<and> OutPoint h = op \<and> SignDesc h = sd
            \<and> HtlcSucceedInput_CraftInputScript (redeem mem') signer' h txn hashCache txinIdx
                = (case redeem mem' signer' (sd\<lparr>SigHashes := hashCache, InputIndex := txinIdx\<rparr>)
                          txn pre of
                     (desc', txn', witness, err) \<Rightarrow>
                       (h, txn',
                        (case err of None \<Rightarrow> Some \<lparr>Witness = witness, SigScript = []\<rparr>
                                   | Some e \<Rightarrow> None),
                        err)))"
  using assms
  by (simp add: MakeBaseInput_def NewBaseInput_def NewCsvInput_def MakeHtlcSucceedInput_def
      OutPoint_def SignDesc_def BaseInput_CraftInputScript_def
      HtlcSucceedInput_CraftInputScript_def Let_def split: prod.split option.split)

theorem constructors_copy_by_value_witness:
  "outpoints ex_mem 1 = Some ex_outpoint \<and> descriptors ex_mem 2 = Some ex_desc
   \<and> outpoints ex_mem' 1 = Some (ex_outpoint\<lparr>Index := 7\<rparr>)
   \<and> descriptors ex_mem' 2 = Some (ex_desc\<lparr>OutputValue := 1\<rparr>)
   \<and> (\<exists>bi. MakeBaseInput ex_mem 1 PlainKey 2 100 = Some bi
          \<and> OutPoint bi = ex_outpoint \<and> SignDesc bi = ex_desc)
   \<and> (\<exists>bi. NewBaseInput ex_mem 1 PlainKey 2 100 = Some bi
          \<and> OutPoint bi = ex_outpoint \<and> SignDesc bi = ex_desc)
   \<and> (\<exists>bi. NewCsvInput ex_mem 1 PlainKey 2 100 144 = Some bi
          \<and> OutPoint bi = ex_outpoint \<and> SignDesc bi = ex_desc)
   \<and> (\<exists>h. MakeHtlcSucceedInput ex_mem 1 2 (Some 3) 100 144 = Some h
          \<and> OutPoint h = ex_outpoint \<and> SignDesc h = ex_desc
          \<and> HtlcSucceedInput_CraftInputScript (SenderHtlcSpendRedeem ex_mem') stub_signer h []
               (Some 7) 0
             = (case SenderHtlcSpendRedeem ex_mem' stub_signer
                       (ex_desc\<lparr>SigHashes := Some 7, InputIndex := 0\<rparr>) [] (Some 3) of
                  (desc', txn', witness, err) \<Rightarrow>
                    (h, txn',
                     (case err of None \<Rightarrow> Some \<lparr>Witness = witness, SigScript = []\<rparr>
                                | Some e \<Rightarrow> None),
                     err)))"
proof -
  have a: "outpoints ex_mem 1 = Some ex_outpoint" by (simp add: ex_mem_def)
  have b: "descriptors ex_mem 2 = Some ex_desc" by (simp add: ex_mem_def)
  have c: "outpoints ex_mem' 1 = Some (ex_outpoint\<lparr>Index := 7\<rparr>)"
    by (simp add: ex_mem'_def write_outpoint_def write_descriptor_def)
  have d: "descriptors ex_mem' 2 = Some (ex_desc\<lparr>OutputValue := 1\<rparr>)"
    by (simp add: ex_mem'_def write_outpoint_def write_descriptor_def)
  show ?thesis
    using a b c d
      constructors_copy_by_value
        [OF a b, where wt = PlainKey and hh = 100 and btm = 144 and pre = "Some 3"
           and gen = "\<lambda>m. WitnessGenerator ex_strategies" and signer = stub_signer
           and redeem = SenderHtlcSpendRedeem and signer' = stub_signer
           and mem' = ex_mem' and txn = "[]" and hashCache = "Some 7" and txinIdx = 0]
    by blast
qed

text \<open>
  C6: \<open>BlocksToMaturity()\<close> and \<open>HeightHint()\<close> return what the constructor fixed: 0
  blocks for \<open>MakeBaseInput\<close> and \<open>NewBaseInput\<close>, the argument \<open>m\<close> for \<open>NewCsvInput\<close>
  and \<open>MakeHtlcSucceedInput\<close>, and the height hint \<open>hh\<close> for all four. Two inputs built
  from the same arguments, in whatever state the caller's memory is, agree on both.
\<close>

theorem maturity_and_height_accessors:
  "(MakeBaseInput mem p wt q hh = Some im \<longrightarrow> BlocksToMaturity im = 0 \<and> HeightHint im = hh)
   \<and> (NewBaseInput mem p wt q hh = Some inw \<longrightarrow> BlocksToMaturity inw = 0 \<and> HeightHint inw = hh)
   \<and> (NewCsvInput mem p wt q hh m = Some ic \<longrightarrow> BlocksToMaturity ic = m \<and> HeightHint ic = hh)
   \<and> (MakeHtlcSucceedInput mem p q pre hh m = Some ih \<longrightarrow>
         BlocksToMaturity ih = m \<and> HeightHint ih = hh)
   \<and> (MakeBaseInput mem p wt q hh = Some im \<and> MakeBaseInput mem' p wt q hh = Some jm \<longrightarrow>
         BlocksToMaturity im = BlocksToMaturity jm \<and> HeightHint im = HeightHint jm)
   \<and> (NewBaseInput mem p wt q hh = Some inw \<and> NewBaseInput mem' p wt q hh = Some jnw \<longrightarrow>
         BlocksToMaturity inw = BlocksToMaturity jnw \<and> HeightHint inw = HeightHint jnw)
   \<and> (NewCsvInput mem p wt q hh m = Some ic \<and> NewCsvInput mem' p wt q hh m = Some jc \<longrightarrow>
         BlocksToMaturity ic = BlocksToMaturity jc \<and> HeightHint ic = HeightHint jc)
   \<and> (MakeHtlcSucceedInput mem p q pre hh m = Some ih
        \<and> MakeHtlcSucceedInput mem' p q pre hh m = Some jh \<longrightarrow>
         BlocksToMaturity ih = BlocksToMaturity jh \<and> HeightHint ih = HeightHint jh)"
  by (auto simp add: MakeBaseInput_def NewBaseInput_def NewCsvInput_def MakeHtlcSucceedInput_def
      BlocksToMaturity_def HeightHint_def split: option.splits)

theorem maturity_and_height_accessors_witness:
  "MakeBaseInput ex_mem 1 CsvDelayed 2 100 = Some (ex_csv\<lparr>blockToMaturity := 0\<rparr>)
   \<and> MakeBaseInput ex_mem' 1 CsvDelayed 2 100 = Some (ex_csv'\<lparr>blockToMaturity := 0\<rparr>)
   \<and> NewBaseInput ex_mem 1 CsvDelayed 2 100 = Some (ex_csv\<lparr>blockToMaturity := 0\<rparr>)
   \<and> NewBaseInput ex_mem' 1 CsvDelayed 2 100 = Some (ex_csv'\<lparr>blockToMaturity := 0\<rparr>)
   \<and> NewCsvInput ex_mem 1 CsvDelayed 2 100 144 = Some ex_csv
   \<and> NewCsvInput ex_mem' 1 CsvDelayed 2 100 144 = Some ex_csv'
   \<and> MakeHtlcSucceedInput ex_mem 1 2 (Some 3) 100 144
        = Some (ex_htlc\<lparr>blockToMaturity := 144\<rparr>)
   \<and> MakeHtlcSucceedInput ex_mem' 1 2 (Some 3) 100 144
        = Some (ex_htlc'\<lparr>blockToMaturity := 144\<rparr>)
   \<and> BlocksToMaturity (ex_csv\<lparr>blockToMaturity := 0\<rparr>) = 0
   \<and> HeightHint (ex_csv\<lparr>blockToMaturity := 0\<rparr>) = 100
   \<and> BlocksToMaturity ex_csv = 144 \<and> HeightHint ex_csv = 100
   \<and> BlocksToMaturity ex_csv' = 144 \<and> HeightHint ex_csv' = 100
   \<and> BlocksToMaturity (ex_htlc\<lparr>blockToMaturity := 144\<rparr>) = 144
   \<and> HeightHint (ex_htlc\<lparr>blockToMaturity := 144\<rparr>) = 100"
  using maturity_and_height_accessors
    [where mem = ex_mem and mem' = ex_mem' and p = 1 and q = 2 and wt = CsvDelayed
       and hh = 100 and m = 144 and pre = "Some 3"
       and im = "ex_csv\<lparr>blockToMaturity := 0\<rparr>" and inw = "ex_csv\<lparr>blockToMaturity := 0\<rparr>"
       and ic = ex_csv and ih = "ex_htlc\<lparr>blockToMaturity := 144\<rparr>"
       and jm = "ex_csv'\<lparr>blockToMaturity := 0\<rparr>" and jnw = "ex_csv'\<lparr>blockToMaturity := 0\<rparr>"
       and jc = ex_csv' and jh = "ex_htlc'\<lparr>blockToMaturity := 144\<rparr>"]
  by (simp add: MakeBaseInput_def NewBaseInput_def NewCsvInput_def MakeHtlcSucceedInput_def
      BlocksToMaturity_def HeightHint_def ex_mem_def ex_mem'_def write_outpoint_def
      write_descriptor_def ex_csv_def ex_csv'_def ex_htlc_def ex_htlc'_def)

section \<open>Crafting the input script\<close>

text \<open>
  C1: for every \<open>BaseInput\<close> and every call \<open>CraftInputScript(signer, txn, hashCache,
  txinIdx)\<close>, the strategy that runs is the one of the input's \<open>WitnessType\<close>; it runs on
  \<open>txn\<close> with the input's descriptor whose \<open>SigHashes\<close> is \<open>hashCache\<close> and whose
  \<open>InputIndex\<close> is \<open>txinIdx\<close>, both set before the strategy runs and left so in the
  input; the call returns what the strategy returns.
\<close>

theorem BaseInput_CraftInputScript_dispatch:
  "BaseInput_CraftInputScript (WitnessGenerator strategies) signer bi txn hashCache txinIdx =
     (bi\<lparr>signDesc := (signDesc bi)\<lparr>SigHashes := hashCache, InputIndex := txinIdx\<rparr>\<rparr>,
      txn,
      (case strategies (WitnessType bi) signer
              ((signDesc bi)\<lparr>SigHashes := hashCache, InputIndex := txinIdx\<rparr>) txn of
         Inl e \<Rightarrow> (None, Some e)
       | Inr script \<Rightarrow> (Some script, None)))"
  by (simp add: BaseInput_CraftInputScript_def WitnessGenerator_def WitnessType_def
      SignDesc_def Let_def split: sum.split)

theorem BaseInput_CraftInputScript_dispatch_witness:
  "BaseInput_CraftInputScript (WitnessGenerator ex_strategies) stub_signer ex_base [] (Some 7) 3 =
     (ex_base\<lparr>signDesc := ex_desc\<lparr>SigHashes := Some 7, InputIndex := 3\<rparr>\<rparr>,
      [],
      Some \<lparr>Witness = [replicate 64 0xAB, [2, 3]], SigScript = []\<rparr>, None)"
  using BaseInput_CraftInputScript_dispatch
    [of ex_strategies stub_signer ex_base "[]" "Some 7" 3]
  by (simp add: ex_strategies_def stub_signer_def ex_base_def ex_desc_def WitnessType_def)

text \<open>
  C2: for every \<open>HtlcSucceedInput\<close> and every call \<open>CraftInputScript(signer, txn,
  hashCache, txinIdx)\<close>, the result is that of \<open>SenderHtlcSpendRedeem\<close> called with a copy
  of the stored descriptor whose \<open>SigHashes\<close> is \<open>hashCache\<close> and whose \<open>InputIndex\<close> is
  \<open>txinIdx\<close>, with \<open>txn\<close>, and with the stored preimage as it is, whatever the preimage:
  the method checks it against nothing. The witness type of the input plays no part in
  the result.
\<close>

theorem HtlcSucceedInput_CraftInputScript_redeem:
  "HtlcSucceedInput_CraftInputScript redeem signer h txn hashCache txinIdx =
     (case redeem signer ((signDesc h)\<lparr>SigHashes := hashCache, InputIndex := txinIdx\<rparr>)
             txn (preimage h) of
        (desc', txn', witness, err) \<Rightarrow>
          (h, txn',
           (case err of None \<Rightarrow> Some \<lparr>Witness = witness, SigScript = []\<rparr> | Some e \<Rightarrow> None),
           err))
   \<and> snd (HtlcSucceedInput_CraftInputScript redeem signer (h\<lparr>witnessType := wt\<rparr>)
             txn hashCache txinIdx)
       = snd (HtlcSucceedInput_CraftInputScript redeem signer h txn hashCache txinIdx)"
  by (simp add: HtlcSucceedInput_CraftInputScript_def Let_def split: prod.split option.split)

theorem HtlcSucceedInput_CraftInputScript_redeem_witness:
  "HtlcSucceedInput_CraftInputScript (SenderHtlcSpendRedeem ex_mem) stub_signer ex_htlc []
       (Some 7) 3 =
     (ex_htlc, [],
      Some \<lparr>Witness = [replicate 64 0xAB, [0x12, 0x34], [0x51]], SigScript = []\<rparr>, None)
   \<and> snd (HtlcSucceedInput_CraftInputScript (SenderHtlcSpendRedeem ex_mem) stub_signer
            (ex_htlc\<lparr>witnessType := PlainKey\<rparr>) [] (Some 7) 3) =
     ([], Some \<lparr>Witness = [replicate 64 0xAB, [0x12, 0x34], [0x51]], SigScript = []\<rparr>, None)"
  using HtlcSucceedInput_CraftInputScript_redeem
    [of "SenderHtlcSpendRedeem ex_mem" stub_signer ex_htlc "[]" "Some 7" 3 PlainKey]
  by (simp add: SenderHtlcSpendRedeem_def slice_bytes_def stub_signer_def ex_htlc_def
      ex_desc_def ex_mem_def)

text \<open>
  C3: for both variants, when the step underneath fails, \<open>CraftInputScript\<close> returns its
  error unchanged next to a nil script, and leaves the transaction as that step left it.
  With the generator and \<open>SenderHtlcSpendRedeem\<close> of the spec, which do not write to the
  transaction, a strategy or a signer that fails with \<open>e\<close> makes the call return
  \<open>(nil, e)\<close> with the transaction unchanged.
\<close>

theorem CraftInputScript_failure:
  "(gen (witnessType bi) signer (signDesc bi) txn hashCache txinIdx = (d, txn', None, Some e)
      \<longrightarrow> BaseInput_CraftInputScript gen signer bi txn hashCache txinIdx
            = (bi\<lparr>signDesc := d\<rparr>, txn', None, Some e))
   \<and> (redeem signer ((signDesc h)\<lparr>SigHashes := hashCache, InputIndex := txinIdx\<rparr>) txn
         (preimage h) = (d, txn', w, Some e)
      \<longrightarrow> HtlcSucceedInput_CraftInputScript redeem signer h txn hashCache txinIdx
            = (h, txn', None, Some e))
   \<and> (strategies (witnessType bi) signer
         ((signDesc bi)\<lparr>SigHashes := hashCache, InputIndex := txinIdx\<rparr>) txn = Inl e
      \<longrightarrow> BaseInput_CraftInputScript (WitnessGenerator strategies) signer bi txn
            hashCache txinIdx
            = (bi\<lparr>signDesc := (signDesc bi)\<lparr>SigHashes := hashCache, InputIndex := txinIdx\<rparr>\<rparr>,
               txn, None, Some e))
   \<and> (sign ((signDesc h)\<lparr>SigHashes := hashCache, InputIndex := txinIdx\<rparr>) txn txinIdx = Inl e
      \<longrightarrow> HtlcSucceedInput_CraftInputScript (SenderHtlcSpendRedeem mem) sign h txn
            hashCache txinIdx
            = (h, txn, None, Some e))"
  by (simp add: BaseInput_CraftInputScript_def WitnessGenerator_def
      HtlcSucceedInput_CraftInputScript_def SenderHtlcSpendRedeem_def SignDesc_def Let_def)

theorem CraftInputScript_failure_witness:
  "WitnessGenerator ex_strategies (witnessType ex_base) failing_signer (signDesc ex_base) []
       (Some 7) 3
     = (ex_desc\<lparr>SigHashes := Some 7, InputIndex := 3\<rparr>, [], None,
        Some (Error ''key unavailable''))
   \<and> SenderHtlcSpendRedeem ex_mem failing_signer
       ((signDesc ex_htlc)\<lparr>SigHashes := Some 7, InputIndex := 3\<rparr>) [] (preimage ex_htlc)
     = (ex_desc\<lparr>SigHashes := Some 7, InputIndex := 3\<rparr>, [], [],
        Some (Error ''key unavailable''))
   \<and> ex_strategies (witnessType ex_base) failing_signer
       ((signDesc ex_base)\<lparr>SigHashes := Some 7, InputIndex := 3\<rparr>) []
     = Inl (Error ''key unavailable'')
   \<and> failing_signer ((signDesc ex_htlc)\<lparr>SigHashes := Some 7, InputIndex := 3\<rparr>) [] 3
     = Inl (Error ''key unavailable'')
   \<and> BaseInput_CraftInputScript (WitnessGenerator ex_strategies) failing_signer ex_base []
       (Some 7) 3
     = (ex_base\<lparr>signDesc := ex_desc\<lparr>SigHashes := Some 7, InputIndex := 3\<rparr>\<rparr>, [], None,
        Some (Error ''key unavailable''))
   \<and> HtlcSucceedInput_CraftInputScript (SenderHtlcSpendRedeem ex_mem) failing_signer ex_htlc
       [] (Some 7) 3
     = (ex_htlc, [], None, Some (Error ''key unavailable''))"
  using CraftInputScript_failure
    [where gen = "WitnessGenerator ex_strategies" and redeem = "SenderHtlcSpendRedeem ex_mem"
       and mem = ex_mem and strategies = ex_strategies and signer = failing_signer and sign = failing_signer
       and bi = ex_base and h = ex_htlc and txn = "[]" and txn' = "[]"
       and hashCache = "Some 7" and txinIdx = 3
       and d = "ex_desc\<lparr>SigHashes := Some 7, InputIndex := 3\<rparr>" and w = "[]"
       and e = "Error ''key unavailable''"]
  by (simp add: WitnessGenerator_def SenderHtlcSpendRedeem_def ex_strategies_def
      failing_signer_def ex_base_def ex_htlc_def)

text \<open>
  C7: with a signer that is a function of its arguments, a second call of
  \<open>CraftInputScript\<close> with the same signer, transaction, cache and index, on the input as
  the first call left it and in the same state of the memory, returns the same script and error as the first, for both
  variants, and leaves the input and the transaction as they were after the first.
\<close>

theorem CraftInputScript_idempotent:
  "(case BaseInput_CraftInputScript (WitnessGenerator strategies) signer bi txn hashCache txinIdx of
      (bi', txn', out) \<Rightarrow>
        BaseInput_CraftInputScript (WitnessGenerator strategies) signer bi' txn' hashCache txinIdx
          = (bi', txn', out))
   \<and> (case HtlcSucceedInput_CraftInputScript (SenderHtlcSpendRedeem mem) sign h txn hashCache
            txinIdx of
      (h', txn', out) \<Rightarrow>
        HtlcSucceedInput_CraftInputScript (SenderHtlcSpendRedeem mem) sign h' txn' hashCache
          txinIdx
          = (h', txn', out))"
  by (simp add: BaseInput_CraftInputScript_def WitnessGenerator_def
      HtlcSucceedInput_CraftInputScript_def SenderHtlcSpendRedeem_def SignDesc_def Let_def
      split: sum.split prod.split)

theorem CraftInputScript_idempotent_witness:
  "BaseInput_CraftInputScript (WitnessGenerator ex_strategies) stub_signer
      (ex_base\<lparr>signDesc := ex_desc\<lparr>SigHashes := Some 7, InputIndex := 3\<rparr>\<rparr>) [] (Some 7) 3
     = BaseInput_CraftInputScript (WitnessGenerator ex_strategies) stub_signer ex_base []
         (Some 7) 3
   \<and> HtlcSucceedInput_CraftInputScript (SenderHtlcSpendRedeem ex_mem) stub_signer ex_htlc []
       (Some 7) 3
     = (ex_htlc, [],
        Some \<lparr>Witness = [replicate 64 0xAB, [0x12, 0x34], [0x51]], SigScript = []\<rparr>, None)"
  using CraftInputScript_idempotent
    [where strategies = ex_strategies and signer = stub_signer and bi = ex_base
       and txn = "[]" and hashCache = "Some 7" and txinIdx = 3 and sign = stub_signer
       and h = ex_htlc and mem = ex_mem]
  by (simp add: BaseInput_CraftInputScript_def WitnessGenerator_def
      HtlcSucceedInput_CraftInputScript_def SenderHtlcSpendRedeem_def SignDesc_def Let_def
      slice_bytes_def ex_strategies_def stub_signer_def ex_base_def ex_htlc_def ex_desc_def
      ex_mem_def)

end
